theory Spec2Isabelle
  imports Complex_Main "HOL-Library.AList"
begin

section \<open>JavaScript numbers\<close>
















section \<open>IoT service: data model\<close>

text \<open>The values a reading's \<open>data\<close> object holds: \<open>number | string | boolean\<close>.\<close>

datatype jsval = JNumber real | JString string | JBoolean bool

datatype SensorType = Wave | Tide | Weather | Seismic | WaterQuality | MarineLife

text \<open>The string literal each member of the union type stands for.\<close>

fun typeName :: "SensorType \<Rightarrow> string" where
  "typeName Wave = ''wave''"
| "typeName Tide = ''tide''"
| "typeName Weather = ''weather''"
| "typeName Seismic = ''seismic''"
| "typeName WaterQuality = ''water_quality''"
| "typeName MarineLife = ''marine_life''"

datatype Quality = Excellent | Good | Fair | Poor

record Location =
  loc_lat :: real
  loc_lon :: real
  loc_name :: string

text \<open>Dates are milliseconds since the epoch.\<close>

record SensorConfig =
  cfg_id :: string
  cfg_type :: SensorType
  location :: Location
  updateInterval :: real
  isActive :: bool
  lastMaintenance :: int

record SensorReading =
  sensorId :: string
  timestamp :: int
  data :: "(string \<times> jsval) list"
  quality :: Quality
  batteryLevel :: "real option"
  signalStrength :: "real option"

datatype Condition = Above | Below | Between | Outside

datatype Severity = Low | Medium | High | Critical

record AlertThreshold =
  sensorType :: string
  parameter :: string
  minValue :: "real option"
  maxValue :: "real option"
  condition :: Condition
  severity :: Severity


section \<open>Reading synthesis\<close>

text \<open>
  \<open>generateSensorReading\<close> reads the clock and draws from \<open>Math.random\<close>. The model
  takes the clock value \<open>now\<close> (one value for the whole call) and the sequence of draws
  \<open>rnd\<close>, consumed in the order the source evaluates them; each per-type block returns
  the data object, the quality assigned so far and the number of draws used.
\<close>

definition seismicData :: "(nat \<Rightarrow> real) \<Rightarrow> (string \<times> jsval) list \<times> Quality \<times> nat" where
  "seismicData rnd =
     (let data = [(''magnitude'', JNumber (rnd 0 * 2.5)),
                  (''frequency'', JNumber (1 + rnd 1 * 10)),
                  (''pWaveVelocity'', JNumber (5000 + rnd 2 * 1000)),
                  (''sWaveVelocity'', JNumber (3000 + rnd 3 * 500)),
                  (''acceleration'', JNumber (rnd 4 * 0.1))]
      in if rnd 5 < 0.05
         then (AList.update ''magnitude'' (JNumber (2.5 + rnd 6 * 2)) data, Excellent, 7)
         else (data, Good, 6))"

definition sensorData ::
  "SensorType \<Rightarrow> int \<Rightarrow> (nat \<Rightarrow> real) \<Rightarrow> (string \<times> jsval) list \<times> Quality \<times> nat" where
  "sensorData ty now rnd =
     (case ty of
        Wave \<Rightarrow>
          ([(''height'', JNumber (max 0.2 (2.5 + sin (real_of_int now / 60000) * 1.5 + (rnd 0 - 0.5) * 1.0))),
            (''period'', JNumber (8 + rnd 1 * 4)),
            (''direction'', JNumber (rnd 2 * 360)),
            (''energy'', JNumber (rnd 3 * 100))], Good, 4)
      | Tide \<Rightarrow>
          ([(''level'', JNumber (sin (real_of_int now / 43200000) * 2.5 + (rnd 0 - 0.5) * 0.3)),
            (''flow'', JNumber ((rnd 1 - 0.5) * 2)),
            (''temperature'', JNumber (18 + rnd 2 * 8))], Good, 3)
      | Weather \<Rightarrow>
          ([(''temperature'', JNumber (20 + sin (real_of_int now / 86400000) * 10 + (rnd 0 - 0.5) * 3)),
            (''humidity'', JNumber (60 + rnd 1 * 30)),
            (''pressure'', JNumber (1013 + (rnd 2 - 0.5) * 20)),
            (''windSpeed'', JNumber (max 0 (8 + rnd 3 * 15))),
            (''windDirection'', JNumber (rnd 4 * 360)),
            (''rainfall'', JNumber (if rnd 5 < 0.3 then rnd 6 * 5 else 0))],
           Good, if rnd 5 < 0.3 then 7 else 6)
      | Seismic \<Rightarrow> seismicData rnd
      | WaterQuality \<Rightarrow>
          ([(''ph'', JNumber (7.0 + (rnd 0 - 0.5) * 2)),
            (''dissolvedOxygen'', JNumber (6 + rnd 1 * 3)),
            (''turbidity'', JNumber (rnd 2 * 10)),
            (''temperature'', JNumber (18 + rnd 3 * 8)),
            (''salinity'', JNumber (35 + (rnd 4 - 0.5) * 5)),
            (''nitrateLevel'', JNumber (rnd 5 * 2)),
            (''phosphateLevel'', JNumber (rnd 6 * 0.5))], Good, 7)
      | MarineLife \<Rightarrow>
          ([(''fishCount'', JNumber (of_int \<lfloor>rnd 0 * 50\<rfloor>)),
            (''avgFishSize'', JNumber (10 + rnd 1 * 20)),
            (''speciesCount'', JNumber (of_int \<lfloor>rnd 2 * 10\<rfloor> + 1)),
            (''migrationIndicator'', JBoolean (0.7 < rnd 3)),
            (''biomassIndex'', JNumber (rnd 4 * 100))], Good, 5))"

definition daysSinceMaintenance :: "SensorConfig \<Rightarrow> int \<Rightarrow> real" where
  "daysSinceMaintenance config now =
     real_of_int (now - lastMaintenance config) / (24 * 60 * 60 * 1000)"

text \<open>
  The degradation chain after the \<open>switch\<close>. It assigns \<open>quality\<close> on each of its four
  branches, so the value the \<open>switch\<close> left in \<open>quality\<close> is overwritten.
\<close>

definition degrade :: "real \<Rightarrow> Quality \<Rightarrow> Quality" where
  "degrade days q =
     (if 30 < days then Poor
      else if 14 < days then Fair
      else if 7 < days then Good
      else Excellent)"

definition generateSensorReading :: "SensorConfig \<Rightarrow> int \<Rightarrow> (nat \<Rightarrow> real) \<Rightarrow> SensorReading" where
  "generateSensorReading config now rnd =
     (case sensorData (cfg_type config) now rnd of
        (d, q, n) \<Rightarrow>
          let days = daysSinceMaintenance config now
          in \<lparr> sensorId = cfg_id config,
               timestamp = now,
               data = d,
               quality = degrade days q,
               batteryLevel = Some (max 10 (100 - days * 2 + (rnd n - 0.5) * 10)),
               signalStrength = Some (max 20 (100 - rnd (n + 1) * 30)) \<rparr>)"

text \<open>The reading takes the spike branch: a seismic device whose sixth draw is below 0.05.\<close>

definition spikeBranch :: "SensorConfig \<Rightarrow> (nat \<Rightarrow> real) \<Rightarrow> bool" where
  "spikeBranch config rnd = (cfg_type config = Seismic \<and> rnd 5 < 0.05)"


section \<open>Threshold evaluation\<close>

text \<open>
  The alert message is a template string; it is kept as the template chosen and the
  values substituted into it (parameter, value, bounds), not rendered to text.
\<close>

datatype AlertMessage =
    ExceedsMaximum string real real
  | BelowMinimum string real real
  | OutsideRange string real real real

record Alert =
  a_parameter :: string
  a_value :: real
  a_threshold :: AlertThreshold
  a_message :: AlertMessage

text \<open>
  \<open>threshold.maxValue && \<dots>\<close>: an optional number is truthy when it is present and
  is not zero.
\<close>

fun truthy :: "real option \<Rightarrow> bool" where
  "truthy None = False"
| "truthy (Some x) = (x \<noteq> 0)"

text \<open>
  The body of the \<open>forEach\<close> over the matching thresholds: \<open>alerts\<close> is the array
  built so far, the result is the array after this threshold. The \<open>switch\<close> has no case
  for \<open>between\<close>.
\<close>

definition thresholdStep :: "SensorReading \<Rightarrow> Alert list \<Rightarrow> AlertThreshold \<Rightarrow> Alert list" where
  "thresholdStep reading alerts threshold =
     (case map_of (data reading) (parameter threshold) of
        Some (JNumber v) \<Rightarrow>
          (case condition threshold of
             Above \<Rightarrow>
               if truthy (maxValue threshold) \<and> the (maxValue threshold) < v
               then alerts @ [\<lparr> a_parameter = parameter threshold, a_value = v,
                                a_threshold = threshold,
                                a_message = ExceedsMaximum (parameter threshold) v
                                              (the (maxValue threshold)) \<rparr>]
               else alerts
           | Below \<Rightarrow>
               if truthy (minValue threshold) \<and> v < the (minValue threshold)
               then alerts @ [\<lparr> a_parameter = parameter threshold, a_value = v,
                                a_threshold = threshold,
                                a_message = BelowMinimum (parameter threshold) v
                                              (the (minValue threshold)) \<rparr>]
               else alerts
           | Outside \<Rightarrow>
               if truthy (minValue threshold) \<and> truthy (maxValue threshold)
                  \<and> (v < the (minValue threshold) \<or> the (maxValue threshold) < v)
               then alerts @ [\<lparr> a_parameter = parameter threshold, a_value = v,
                                a_threshold = threshold,
                                a_message = OutsideRange (parameter threshold) v
                                              (the (minValue threshold))
                                              (the (maxValue threshold)) \<rparr>]
               else alerts
           | Between \<Rightarrow> alerts)
      | _ \<Rightarrow> alerts)"

definition checkAlertThresholds ::
  "(string \<times> SensorConfig) list \<Rightarrow> AlertThreshold list \<Rightarrow> SensorReading \<Rightarrow> Alert list" where
  "checkAlertThresholds configs thresholds reading =
     (case map_of configs (sensorId reading) of
        None \<Rightarrow> []
      | Some config \<Rightarrow>
          foldl (thresholdStep reading) []
            (filter (\<lambda>threshold. sensorType threshold = typeName (cfg_type config)) thresholds))"

definition setupAlertThresholds :: "AlertThreshold list" where
  "setupAlertThresholds =
     [\<lparr> sensorType = ''wave'', parameter = ''height'', minValue = None,
         maxValue = Some 4.0, condition = Above, severity = High \<rparr>,
      \<lparr> sensorType = ''wave'', parameter = ''height'', minValue = None,
         maxValue = Some 6.0, condition = Above, severity = Critical \<rparr>,
      \<lparr> sensorType = ''tide'', parameter = ''level'', minValue = Some (- 3.0),
         maxValue = Some 3.0, condition = Outside, severity = Medium \<rparr>,
      \<lparr> sensorType = ''weather'', parameter = ''windSpeed'', minValue = None,
         maxValue = Some 25.0, condition = Above, severity = Medium \<rparr>,
      \<lparr> sensorType = ''weather'', parameter = ''windSpeed'', minValue = None,
         maxValue = Some 40.0, condition = Above, severity = High \<rparr>,
      \<lparr> sensorType = ''seismic'', parameter = ''magnitude'', minValue = None,
         maxValue = Some 3.0, condition = Above, severity = Medium \<rparr>,
      \<lparr> sensorType = ''water_quality'', parameter = ''ph'', minValue = Some 6.5,
         maxValue = Some 8.5, condition = Outside, severity = Medium \<rparr>]"


section \<open>The service state: registry and timers\<close>

text \<open>
  \<open>sensorConfigs\<close> and \<open>streamingIntervals\<close> are JavaScript \<open>Map\<close>s: association
  lists in insertion order, \<open>set\<close> being \<open>AList.update\<close>. The timers of the runtime
  are part of the state: \<open>activeTimers\<close> lists the recurring timers that have been set
  and not cleared, each with its handle, the registry key its callback was created
  under and its delay in milliseconds; \<open>nextTimer\<close> is the next fresh handle. The
  WebSocket server and its clients are not part of the model.
\<close>

record IoTService =
  sensorConfigs :: "(string \<times> SensorConfig) list"
  streamingIntervals :: "(string \<times> nat) list"
  alertThresholds :: "AlertThreshold list"
  isInitialized :: bool
  activeTimers :: "(nat \<times> string \<times> real) list"
  nextTimer :: nat

definition newIoTService :: IoTService where
  "newIoTService =
     \<lparr> sensorConfigs = [], streamingIntervals = [], alertThresholds = [],
       isInitialized = False, activeTimers = [], nextTimer = 0 \<rparr>"

definition setInterval :: "string \<Rightarrow> real \<Rightarrow> IoTService \<Rightarrow> nat \<times> IoTService" where
  "setInterval key delay s =
     (nextTimer s,
      s\<lparr> activeTimers := activeTimers s @ [(nextTimer s, key, delay)],
         nextTimer := Suc (nextTimer s) \<rparr>)"

definition clearInterval :: "nat \<Rightarrow> IoTService \<Rightarrow> IoTService" where
  "clearInterval h s = s\<lparr> activeTimers := filter (\<lambda>t. fst t \<noteq> h) (activeTimers s) \<rparr>"

definition defaultSensors :: "int \<Rightarrow> SensorConfig list" where
  "defaultSensors now =
     [\<lparr> cfg_id = ''wave_001'', cfg_type = Wave,
         location = \<lparr> loc_lat = 40.7128, loc_lon = - 74.0060, loc_name = ''New York Harbor Alpha'' \<rparr>,
         updateInterval = 30, isActive = True,
         lastMaintenance = now - 7 * 24 * 60 * 60 * 1000 \<rparr>,
      \<lparr> cfg_id = ''tide_001'', cfg_type = Tide,
         location = \<lparr> loc_lat = 40.7589, loc_lon = - 73.9851, loc_name = ''Central Park Reservoir Beta'' \<rparr>,
         updateInterval = 60, isActive = False,
         lastMaintenance = now - 14 * 24 * 60 * 60 * 1000 \<rparr>,
      \<lparr> cfg_id = ''weather_001'', cfg_type = Weather,
         location = \<lparr> loc_lat = 40.6892, loc_lon = - 74.0445, loc_name = ''Gamma Weather Station'' \<rparr>,
         updateInterval = 15, isActive = True,
         lastMaintenance = now - 3 * 24 * 60 * 60 * 1000 \<rparr>,
      \<lparr> cfg_id = ''seismic_001'', cfg_type = Seismic,
         location = \<lparr> loc_lat = 40.7282, loc_lon = - 74.0776, loc_name = ''Seismic Monitor Delta'' \<rparr>,
         updateInterval = 5, isActive = True,
         lastMaintenance = now - 1 * 24 * 60 * 60 * 1000 \<rparr>,
      \<lparr> cfg_id = ''water_001'', cfg_type = WaterQuality,
         location = \<lparr> loc_lat = 40.7505, loc_lon = - 73.9934, loc_name = ''Water Quality Epsilon'' \<rparr>,
         updateInterval = 300, isActive = True,
         lastMaintenance = now - 5 * 24 * 60 * 60 * 1000 \<rparr>]"

definition initializeSensorConfigs :: "int \<Rightarrow> IoTService \<Rightarrow> IoTService" where
  "initializeSensorConfigs now s =
     fold (\<lambda>sensor s'. s'\<lparr> sensorConfigs := AList.update (cfg_id sensor) sensor (sensorConfigs s') \<rparr>)
       (defaultSensors now) s"

text \<open>The body of the \<open>forEach\<close> in \<open>startSensorDataStreams\<close>, for one registry entry.\<close>

definition startStream :: "string \<times> SensorConfig \<Rightarrow> IoTService \<Rightarrow> IoTService" where
  "startStream entry s =
     (if isActive (snd entry)
      then (case setInterval (fst entry) (updateInterval (snd entry) * 1000) s of
              (interval, s') \<Rightarrow>
                s'\<lparr> streamingIntervals := AList.update (fst entry) interval (streamingIntervals s') \<rparr>)
      else s)"

definition startSensorDataStreams :: "IoTService \<Rightarrow> IoTService" where
  "startSensorDataStreams s = fold startStream (sensorConfigs s) s"

definition initialize :: "int \<Rightarrow> IoTService \<Rightarrow> IoTService" where
  "initialize now s =
     (if isInitialized s then s
      else (startSensorDataStreams
              ((initializeSensorConfigs now s)\<lparr> alertThresholds := setupAlertThresholds \<rparr>))
           \<lparr> isInitialized := True \<rparr>)"

text \<open>\<open>Partial<SensorConfig>\<close>: every field optional.\<close>

record PartialSensorConfig =
  p_id :: "string option"
  p_type :: "SensorType option"
  p_location :: "Location option"
  p_updateInterval :: "real option"
  p_isActive :: "bool option"
  p_lastMaintenance :: "int option"

definition noChange :: PartialSensorConfig where
  "noChange = \<lparr> p_id = None, p_type = None, p_location = None, p_updateInterval = None,
                p_isActive = None, p_lastMaintenance = None \<rparr>"

text \<open>The object spread \<open>{ ...existing, ...newConfig }\<close>.\<close>

definition spread :: "SensorConfig \<Rightarrow> PartialSensorConfig \<Rightarrow> SensorConfig" where
  "spread existing newConfig =
     \<lparr> cfg_id = (case p_id newConfig of None \<Rightarrow> cfg_id existing | Some v \<Rightarrow> v),
       cfg_type = (case p_type newConfig of None \<Rightarrow> cfg_type existing | Some v \<Rightarrow> v),
       location = (case p_location newConfig of None \<Rightarrow> location existing | Some v \<Rightarrow> v),
       updateInterval = (case p_updateInterval newConfig of None \<Rightarrow> updateInterval existing | Some v \<Rightarrow> v),
       isActive = (case p_isActive newConfig of None \<Rightarrow> isActive existing | Some v \<Rightarrow> v),
       lastMaintenance = (case p_lastMaintenance newConfig of None \<Rightarrow> lastMaintenance existing | Some v \<Rightarrow> v) \<rparr>"

definition updateSensorConfig :: "string \<Rightarrow> PartialSensorConfig \<Rightarrow> IoTService \<Rightarrow> IoTService" where
  "updateSensorConfig key newConfig s =
     (case map_of (sensorConfigs s) key of
        None \<Rightarrow> s
      | Some existing \<Rightarrow>
          let s1 = s\<lparr> sensorConfigs := AList.update key (spread existing newConfig) (sensorConfigs s) \<rparr>
          in if truthy (p_updateInterval newConfig)
             then
               let s2 = (case map_of (streamingIntervals s1) key of
                           None \<Rightarrow> s1
                         | Some oldInterval \<Rightarrow> clearInterval oldInterval s1)
               in if isActive existing
                  then (case setInterval key (the (p_updateInterval newConfig) * 1000) s2 of
                          (newInterval, s3) \<Rightarrow>
                            s3\<lparr> streamingIntervals :=
                                   AList.update key newInterval (streamingIntervals s3) \<rparr>)
                  else s2
             else s1)"

definition updateMaintenanceRecord :: "string \<Rightarrow> int \<Rightarrow> IoTService \<Rightarrow> IoTService" where
  "updateMaintenanceRecord key maintenanceDate s =
     (case map_of (sensorConfigs s) key of
        None \<Rightarrow> s
      | Some config \<Rightarrow>
          s\<lparr> sensorConfigs :=
               AList.update key (config\<lparr> lastMaintenance := maintenanceDate \<rparr>) (sensorConfigs s) \<rparr>)"

definition cleanup :: "IoTService \<Rightarrow> IoTService" where
  "cleanup s =
     (fold (\<lambda>entry. clearInterval (snd entry)) (streamingIntervals s) s)
     \<lparr> streamingIntervals := [] \<rparr>"

text \<open>
  \<open>processSensorReading\<close> broadcasts one envelope, the reading with its alerts;
  \<open>handleSensorMessage\<close> returns the new state and the envelopes broadcast.
\<close>

definition processSensorReading :: "SensorReading \<Rightarrow> IoTService \<Rightarrow> SensorReading \<times> Alert list" where
  "processSensorReading reading s =
     (reading, checkAlertThresholds (sensorConfigs s) (alertThresholds s) reading)"

datatype SensorMessage =
    SensorConfigUpdate string PartialSensorConfig
  | ManualReading SensorReading
  | MaintenanceUpdate string int

fun handleSensorMessage ::
  "SensorMessage \<Rightarrow> IoTService \<Rightarrow> IoTService \<times> (SensorReading \<times> Alert list) list" where
  "handleSensorMessage (SensorConfigUpdate key config) s = (updateSensorConfig key config s, [])"
| "handleSensorMessage (ManualReading reading) s = (s, [processSensorReading reading s])"
| "handleSensorMessage (MaintenanceUpdate key date) s = (updateMaintenanceRecord key date s, [])"

text \<open>A device has a running timer: some timer that is set and not cleared ticks for it.\<close>

definition hasTimer :: "IoTService \<Rightarrow> string \<Rightarrow> bool" where
  "hasTimer s key = (key \<in> set (map (fst \<circ> snd) (activeTimers s)))"

definition timerIffActive :: "IoTService \<Rightarrow> bool" where
  "timerIffActive s =
     list_all (\<lambda>entry. hasTimer s (fst entry) = isActive (snd entry)) (sensorConfigs s)"

section \<open>Reachable states of the stream manager\<close>

text \<open>A configuration update that leaves the active flag of the device as it is.\<close>

definition flagUnchanged :: "IoTService \<Rightarrow> string \<Rightarrow> PartialSensorConfig \<Rightarrow> bool" where
  "flagUnchanged s key newConfig =
     (case map_of (sensorConfigs s) key of
        None \<Rightarrow> True
      | Some existing \<Rightarrow> isActive (spread existing newConfig) = isActive existing)"

text \<open>
  The states the service reaches from a new instance by initialization, maintenance
  updates and configuration updates that leave active flags as they are.
\<close>

inductive flagStable :: "IoTService \<Rightarrow> bool" where
  init: "flagStable (initialize now newIoTService)"
| reinit: "flagStable s \<Longrightarrow> flagStable (initialize now s)"
| maintenance: "flagStable s \<Longrightarrow> flagStable (updateMaintenanceRecord key date s)"
| config: "flagStable s \<Longrightarrow> flagUnchanged s key newConfig
           \<Longrightarrow> flagStable (updateSensorConfig key newConfig s)"

text \<open>
  Bookkeeping facts of the timer table: registry keys are distinct, every running timer
  is the one registered for its key in \<open>streamingIntervals\<close>, handles stored there
  were issued before \<open>nextTimer\<close> and differ from key to key.
\<close>

definition timersRegistered :: "IoTService \<Rightarrow> bool" where
  "timersRegistered s =
     (isInitialized s
      \<and> distinct (map fst (sensorConfigs s))
      \<and> list_all (\<lambda>t. map_of (streamingIntervals s) (fst (snd t)) = Some (fst t)) (activeTimers s)
      \<and> list_all (\<lambda>e. snd e < nextTimer s) (streamingIntervals s)
      \<and> distinct (map snd (streamingIntervals s)))"


section \<open>Geo analytics service: data model\<close>









section \<open>Great-circle distance\<close>





section \<open>Loops that may throw\<close>



section \<open>Clustering\<close>


















section \<open>Proximity scoring\<close>










section \<open>Evacuation resolution\<close>










section \<open>The spatial analytics as the specification words them\<close>




























section \<open>Concrete inputs\<close>

text \<open>The seismic monitor of the default registry, last serviced at time 0.\<close>

definition staleSeismic :: SensorConfig where
  "staleSeismic =
     \<lparr> cfg_id = ''seismic_001'', cfg_type = Seismic,
       location = \<lparr> loc_lat = 40.7282, loc_lon = - 74.0776, loc_name = ''Seismic Monitor Delta'' \<rparr>,
       updateInterval = 5, isActive = True, lastMaintenance = 0 \<rparr>"

text \<open>The service after initialization at time 0.\<close>

definition started :: IoTService where
  "started = initialize 0 newIoTService"

text \<open>A manual reading for a sensor id that the registry does not hold.\<close>

definition ghostReading :: SensorReading where
  "ghostReading =
     \<lparr> sensorId = ''ghost_999'', timestamp = 0, data = [(''height'', JNumber 99)],
       quality = Excellent, batteryLevel = None, signalStrength = None \<rparr>"

text \<open>A manual reading of the wave buoy with a height above both wave thresholds.\<close>

definition stormWave :: SensorReading where
  "stormWave =
     \<lparr> sensorId = ''wave_001'', timestamp = 0, data = [(''height'', JNumber 6.5)],
       quality = Excellent, batteryLevel = None, signalStrength = None \<rparr>"

text \<open>
  A \<open>below\<close> rule for dissolved oxygen, of the kind the rule type allows though the
  service is not configured with one, and a reading of the water quality probe under its
  bound.
\<close>

definition lowOxygen :: AlertThreshold where
  "lowOxygen =
     \<lparr> sensorType = ''water_quality'', parameter = ''dissolvedOxygen'', minValue = Some 5,
       maxValue = None, condition = Below, severity = High \<rparr>"

definition staleWater :: SensorReading where
  "staleWater =
     \<lparr> sensorId = ''water_001'', timestamp = 0, data = [(''dissolvedOxygen'', JNumber 4.2)],
       quality = Excellent, batteryLevel = None, signalStrength = None \<rparr>"
















section \<open>Properties of the IoT service\<close>

subsection \<open>Quality grade\<close>



text \<open>
  Claim C1 asks that a seismic reading taking the spike branch is graded excellent
  whatever the service age. In the code the spike branch assigns excellent inside the
  \<open>switch\<close>, and the degradation chain after the \<open>switch\<close> assigns the grade
  again on every path. At 40 days since service, with every draw 0.01 (so the spike
  test \<open>0.01 < 0.05\<close> succeeds and the magnitude is redrawn as 2.52), the reading is
  graded poor.
\<close>

theorem seismic_spike_quality_overwritten:
  "spikeBranch staleSeismic (\<lambda>i. 1 / 100)
   \<and> daysSinceMaintenance staleSeismic 3456000000 = 40
   \<and> map_of (data (generateSensorReading staleSeismic 3456000000 (\<lambda>i. 1 / 100))) ''magnitude''
       = Some (JNumber (252 / 100))
   \<and> quality (generateSensorReading staleSeismic 3456000000 (\<lambda>i. 1 / 100)) = Poor"
  by (simp add: spikeBranch_def daysSinceMaintenance_def staleSeismic_def
      generateSensorReading_def sensorData_def seismicData_def degrade_def Let_def)

subsection \<open>The initialized service\<close>

lemma started_state:
  "initialize now newIoTService =
     \<lparr> sensorConfigs = map (\<lambda>c. (cfg_id c, c)) (defaultSensors now),
       streamingIntervals = [(''wave_001'', 0), (''weather_001'', 1), (''seismic_001'', 2), (''water_001'', 3)],
       alertThresholds = setupAlertThresholds,
       isInitialized = True,
       activeTimers = [(0, ''wave_001'', 30000), (1, ''weather_001'', 15000),
                       (2, ''seismic_001'', 5000), (3, ''water_001'', 300000)],
       nextTimer = 4 \<rparr>"
  by (simp add: initialize_def newIoTService_def initializeSensorConfigs_def defaultSensors_def
      startSensorDataStreams_def startStream_def setInterval_def)

subsection \<open>Threshold evaluation\<close>

text \<open>
  Claim C10. A reading whose sensor id has no registered configuration gets an empty
  alert list, whatever its fields hold; a manual reading for such an id is broadcast
  with no alerts and leaves the service state as it was.
\<close>

theorem unknown_sensor_no_alerts:
  "map_of (sensorConfigs s) (sensorId reading) = None \<Longrightarrow>
   checkAlertThresholds (sensorConfigs s) (alertThresholds s) reading = []
   \<and> handleSensorMessage (ManualReading reading) s = (s, [(reading, [])])"
  by (simp add: checkAlertThresholds_def processSensorReading_def)

theorem unknown_sensor_no_alerts_witness:
  "map_of (sensorConfigs started) (sensorId ghostReading) = None
   \<and> checkAlertThresholds (sensorConfigs started) (alertThresholds started) ghostReading = []
   \<and> handleSensorMessage (ManualReading ghostReading) started = (started, [(ghostReading, [])])"
proof -
  have h: "map_of (sensorConfigs started) (sensorId ghostReading) = None"
    by (simp add: started_def started_state defaultSensors_def ghostReading_def)
  show ?thesis using h unknown_sensor_no_alerts [OF h] by simp
qed

text \<open>
  Each threshold adds its alerts behind those already collected, so the loop over the
  matching thresholds is the concatenation of what each threshold yields on its own.
\<close>

lemma thresholdStep_append: "thresholdStep r acc t = acc @ thresholdStep r [] t"
  by (auto simp: thresholdStep_def split: option.splits jsval.splits Condition.splits)

lemma foldl_thresholdStep:
  "foldl (thresholdStep r) acc ts = acc @ concat (map (thresholdStep r []) ts)"
proof (induction ts arbitrary: acc)
  case Nil
  show ?case by simp
next
  case (Cons t ts)
  show ?case by (simp add: Cons.IH thresholdStep_append [of r acc t])
qed

lemma both_wave_rules_fire:
  "map (severity \<circ> a_threshold) (checkAlertThresholds (sensorConfigs started) setupAlertThresholds stormWave)
     = [High, Critical]"
  by (simp add: started_def started_state defaultSensors_def checkAlertThresholds_def stormWave_def
      setupAlertThresholds_def thresholdStep_def)

lemma configured_bounds:
  "t \<in> set setupAlertThresholds \<Longrightarrow>
   minValue t \<noteq> Some 0 \<and> maxValue t \<noteq> Some 0
   \<and> (condition t = Above \<longrightarrow> maxValue t \<noteq> None)
   \<and> (condition t = Outside \<longrightarrow> minValue t \<noteq> None \<and> maxValue t \<noteq> None)"
  unfolding setupAlertThresholds_def set_simps insert_iff empty_iff
  by (elim disjE) simp_all

text \<open>
  Claim C2. The rules are those the service is configured with (and, beyond them, any
  rule none of whose bounds is zero). For a reading of a registered device, the alerts
  are those of each rule of the device's type, evaluated on its own and concatenated in
  rule order. For a rule whose field is present and numeric: an \<open>above\<close> rule yields
  exactly one alert when \<open>v > max\<close> and none otherwise; a \<open>below\<close> rule yields exactly
  one alert when \<open>v < min\<close> and none otherwise; an \<open>outside\<close> rule yields exactly one
  alert when \<open>v < min\<close> or \<open>v > max\<close> and none otherwise. Every configured \<open>above\<close>
  rule has its maximum and every configured \<open>outside\<close> rule both bounds. On a wave
  height of 6.5 both configured wave rules fire, the high one and the critical one.
\<close>

theorem threshold_rules_fire_on_violation:
  assumes "map_of configs (sensorId r) = Some config"
    and "t \<in> set setupAlertThresholds \<or> (minValue t \<noteq> Some 0 \<and> maxValue t \<noteq> Some 0)"
    and "map_of (data r) (parameter t) = Some (JNumber v)"
  shows "checkAlertThresholds configs ths r =
           concat (map (thresholdStep r [])
                     (filter (\<lambda>threshold. sensorType threshold = typeName (cfg_type config)) ths))
     \<and> (condition t = Above \<and> maxValue t = Some mx \<longrightarrow>
          thresholdStep r [] t =
            (if mx < v
             then [\<lparr> a_parameter = parameter t, a_value = v, a_threshold = t,
                      a_message = ExceedsMaximum (parameter t) v mx \<rparr>]
             else []))
     \<and> (condition t = Below \<and> minValue t = Some mn \<longrightarrow>
          thresholdStep r [] t =
            (if v < mn
             then [\<lparr> a_parameter = parameter t, a_value = v, a_threshold = t,
                      a_message = BelowMinimum (parameter t) v mn \<rparr>]
             else []))
     \<and> (condition t = Outside \<and> minValue t = Some mn \<and> maxValue t = Some mx \<longrightarrow>
          thresholdStep r [] t =
            (if v < mn \<or> mx < v
             then [\<lparr> a_parameter = parameter t, a_value = v, a_threshold = t,
                      a_message = OutsideRange (parameter t) v mn mx \<rparr>]
             else []))
     \<and> (t \<in> set setupAlertThresholds \<and> condition t = Above \<longrightarrow> maxValue t \<noteq> None)
     \<and> (t \<in> set setupAlertThresholds \<and> condition t = Outside \<longrightarrow>
          minValue t \<noteq> None \<and> maxValue t \<noteq> None)
     \<and> map (severity \<circ> a_threshold)
          (checkAlertThresholds (sensorConfigs started) setupAlertThresholds stormWave)
        = [High, Critical]"
proof -
  from assms(2) have nz: "minValue t \<noteq> Some 0" "maxValue t \<noteq> Some 0"
    using configured_bounds [of t] by auto
  show ?thesis
    using assms(1,3) nz both_wave_rules_fire configured_bounds [of t]
    by (auto simp: checkAlertThresholds_def foldl_thresholdStep thresholdStep_def)
qed

text \<open>
  The high wave rule of the configuration on a wave height of 6.5, and a \<open>below\<close>
  rule with bound 5 on a dissolved oxygen reading of 4.2.
\<close>

theorem threshold_rules_fire_on_violation_witness:
  "map_of (sensorConfigs started) (sensorId stormWave) = Some (hd (defaultSensors 0))
   \<and> hd setupAlertThresholds \<in> set setupAlertThresholds
   \<and> map_of (data stormWave) (parameter (hd setupAlertThresholds)) = Some (JNumber 6.5)
   \<and> condition (hd setupAlertThresholds) = Above
   \<and> maxValue (hd setupAlertThresholds) = Some 4
   \<and> length (thresholdStep stormWave [] (hd setupAlertThresholds)) = 1
   \<and> length (checkAlertThresholds (sensorConfigs started) setupAlertThresholds stormWave) = 2
   \<and> map_of (sensorConfigs started) (sensorId staleWater) = Some (defaultSensors 0 ! 4)
   \<and> map_of (data staleWater) (parameter lowOxygen) = Some (JNumber 4.2)
   \<and> condition lowOxygen = Below \<and> minValue lowOxygen = Some 5
   \<and> length (thresholdStep staleWater [] lowOxygen) = 1"
proof -
  have c: "map_of (sensorConfigs started) (sensorId stormWave) = Some (hd (defaultSensors 0))"
    by (simp add: started_def started_state defaultSensors_def stormWave_def)
  have m: "hd setupAlertThresholds \<in> set setupAlertThresholds
           \<or> (minValue (hd setupAlertThresholds) \<noteq> Some 0 \<and> maxValue (hd setupAlertThresholds) \<noteq> Some 0)"
    by (simp add: setupAlertThresholds_def)
  have d: "map_of (data stormWave) (parameter (hd setupAlertThresholds)) = Some (JNumber 6.5)"
    by (simp add: stormWave_def setupAlertThresholds_def)
  have c': "map_of (sensorConfigs started) (sensorId staleWater) = Some (defaultSensors 0 ! 4)"
    by (simp add: started_def started_state defaultSensors_def staleWater_def)
  have m': "lowOxygen \<in> set setupAlertThresholds
            \<or> (minValue lowOxygen \<noteq> Some 0 \<and> maxValue lowOxygen \<noteq> Some 0)"
    by (simp add: lowOxygen_def)
  have d': "map_of (data staleWater) (parameter lowOxygen) = Some (JNumber 4.2)"
    by (simp add: staleWater_def lowOxygen_def)
  show ?thesis
    using c d c' d'
      threshold_rules_fire_on_violation [OF c m d, of setupAlertThresholds 4 0, THEN conjunct2, THEN conjunct1]
      threshold_rules_fire_on_violation [OF c m d, of setupAlertThresholds 4 0, THEN conjunct1]
      threshold_rules_fire_on_violation [OF c' m' d', of setupAlertThresholds 0 5,
        THEN conjunct2, THEN conjunct2, THEN conjunct1]
    by (simp add: setupAlertThresholds_def defaultSensors_def thresholdStep_def stormWave_def
        lowOxygen_def staleWater_def)
qed

subsection \<open>Timers and active flags\<close>

lemma started_inv: "timersRegistered (initialize now newIoTService) \<and> timerIffActive (initialize now newIoTService)"
  unfolding started_state
  by (simp add: timersRegistered_def timerIffActive_def hasTimer_def defaultSensors_def)

lemma list_all_map_of:
  "distinct (map fst al) \<Longrightarrow> list_all P al = (\<forall>k v. map_of al k = Some v \<longrightarrow> P (k, v))"
  by (auto simp: list_all_iff)

lemma set_update_subset: "set (AList.update k v al) \<subseteq> insert (k, v) (set al)"
  by (induction al) auto

lemma distinct_snd_update:
  "distinct (map snd al) \<Longrightarrow> v \<notin> snd ` set al \<Longrightarrow> distinct (map snd (AList.update k v al))"
proof (induction al)
  case Nil
  then show ?case by simp
next
  case (Cons a al)
  have "snd ` set (AList.update k v al) \<subseteq> insert v (snd ` set al)"
    using set_update_subset [of k v al] by force
  with Cons show ?case by (cases a) (auto simp: rev_image_eqI)
qed

lemma handle_inj:
  "distinct (map snd al) \<Longrightarrow> map_of al k1 = Some h \<Longrightarrow> map_of al k2 = Some h \<Longrightarrow> k1 = k2"
  by (metis distinct_map inj_on_def map_of_SomeD prod.sel(1) prod.sel(2))

lemma timerIffActive_alt:
  "distinct (map fst (sensorConfigs s)) \<Longrightarrow>
   timerIffActive s = (\<forall>k c. map_of (sensorConfigs s) k = Some c \<longrightarrow> hasTimer s k = isActive c)"
  by (simp add: timerIffActive_def list_all_map_of)

lemma maintenance_inv:
  assumes "timersRegistered s" "timerIffActive s"
  shows "timersRegistered (updateMaintenanceRecord key date s) \<and> timerIffActive (updateMaintenanceRecord key date s)"
proof (cases "map_of (sensorConfigs s) key")
  case None
  with assms show ?thesis by (simp add: updateMaintenanceRecord_def)
next
  case (Some config)
  let ?s = "updateMaintenanceRecord key date s"
  have s': "?s = s\<lparr> sensorConfigs := AList.update key (config\<lparr> lastMaintenance := date \<rparr>) (sensorConfigs s) \<rparr>"
    using Some by (simp add: updateMaintenanceRecord_def)
  have reg: "timersRegistered ?s"
    using assms(1) by (simp add: s' timersRegistered_def distinct_update)
  have d: "distinct (map fst (sensorConfigs s))" "distinct (map fst (sensorConfigs ?s))"
    using assms(1) reg by (simp_all add: timersRegistered_def)
  have ht: "hasTimer ?s k = hasTimer s k" for k
    by (simp add: s' hasTimer_def)
  have "timerIffActive ?s"
    unfolding timerIffActive_alt [OF d(2)]
    using assms(2) Some unfolding timerIffActive_alt [OF d(1)] ht
    by (auto simp: s' update_conv' split: if_splits)
  with reg show ?thesis by simp
qed

lemma clear_unrelated:
  assumes reg: "timersRegistered s"
    and old: "map_of (streamingIntervals s) key = Some old"
  shows "filter (\<lambda>t. fst t \<noteq> old) (activeTimers s) = filter (\<lambda>t. fst (snd t) \<noteq> key) (activeTimers s)"
proof (rule filter_cong [OF refl])
  fix t assume t: "t \<in> set (activeTimers s)"
  from reg t have r: "map_of (streamingIntervals s) (fst (snd t)) = Some (fst t)"
    unfolding timersRegistered_def list_all_iff by blast
  from reg have dist: "distinct (map snd (streamingIntervals s))"
    by (simp add: timersRegistered_def)
  show "(fst t \<noteq> old) = (fst (snd t) \<noteq> key)"
    using r old handle_inj [OF dist] by fastforce
qed

lemma no_entry_no_timer:
  assumes reg: "timersRegistered s"
    and none: "map_of (streamingIntervals s) key = None"
  shows "filter (\<lambda>t. fst (snd t) \<noteq> key) (activeTimers s) = activeTimers s"
proof -
  have "fst (snd t) \<noteq> key" if "t \<in> set (activeTimers s)" for t
    using reg that none unfolding timersRegistered_def list_all_iff by fastforce
  then show ?thesis by (simp add: filter_id_conv)
qed

text \<open>
  The state after a configuration update of a registered device, by cases.
\<close>

lemma updateSensorConfig_state:
  assumes reg: "timersRegistered s"
    and ex: "map_of (sensorConfigs s) key = Some existing"
  shows "updateSensorConfig key newConfig s =
     (if truthy (p_updateInterval newConfig)
      then s\<lparr> sensorConfigs := AList.update key (spread existing newConfig) (sensorConfigs s),
              activeTimers := filter (\<lambda>t. fst (snd t) \<noteq> key) (activeTimers s)
                              @ (if isActive existing
                                 then [(nextTimer s, key, the (p_updateInterval newConfig) * 1000)]
                                 else []),
              streamingIntervals := (if isActive existing
                                     then AList.update key (nextTimer s) (streamingIntervals s)
                                     else streamingIntervals s),
              nextTimer := (if isActive existing then Suc (nextTimer s) else nextTimer s) \<rparr>
      else s\<lparr> sensorConfigs := AList.update key (spread existing newConfig) (sensorConfigs s) \<rparr>)"
proof (cases "map_of (streamingIntervals s) key")
  case None
  with ex no_entry_no_timer [OF reg None] show ?thesis
    by (simp add: updateSensorConfig_def Let_def setInterval_def)
next
  case (Some old)
  with ex clear_unrelated [OF reg Some] show ?thesis
    by (simp add: updateSensorConfig_def Let_def setInterval_def clearInterval_def)
qed

lemma config_inv:
  assumes reg: "timersRegistered s" and inv: "timerIffActive s"
    and flag: "flagUnchanged s key newConfig"
  shows "timersRegistered (updateSensorConfig key newConfig s)
         \<and> timerIffActive (updateSensorConfig key newConfig s)"
proof (cases "map_of (sensorConfigs s) key")
  case None
  with reg inv show ?thesis by (simp add: updateSensorConfig_def)
next
  case (Some existing)
  let ?s = "updateSensorConfig key newConfig s"
  note st = updateSensorConfig_state [OF reg Some, of newConfig]
  from flag Some have same: "isActive (spread existing newConfig) = isActive existing"
    by (simp add: flagUnchanged_def)
  have d: "distinct (map fst (sensorConfigs s))"
    using reg by (simp add: timersRegistered_def)
  from inv Some have act: "hasTimer s key = isActive existing"
    unfolding timerIffActive_alt [OF d] by blast
  have regd: "\<forall>t\<in>set (activeTimers s). map_of (streamingIntervals s) (fst (snd t)) = Some (fst t)"
    and bound: "\<forall>e\<in>set (streamingIntervals s). snd e < nextTimer s"
    and dsnd: "distinct (map snd (streamingIntervals s))"
    using reg unfolding timersRegistered_def list_all_iff by blast+
  have fresh: "nextTimer s \<notin> snd ` set (streamingIntervals s)"
    using bound by fastforce
  have bound': "\<forall>e\<in>set (AList.update key (nextTimer s) (streamingIntervals s)). snd e < Suc (nextTimer s)"
    using bound set_update_subset [of key "nextTimer s" "streamingIntervals s"] by fastforce
  have reg': "timersRegistered ?s"
    unfolding st timersRegistered_def list_all_iff
    using reg regd bound bound' dsnd distinct_snd_update [OF dsnd fresh, of key]
    by (auto simp: timersRegistered_def distinct_update update_conv')
  have d': "distinct (map fst (sensorConfigs ?s))"
    using reg' by (simp add: timersRegistered_def)
  have other: "hasTimer ?s k = hasTimer s k" if "k \<noteq> key" for k
    using that unfolding st hasTimer_def by (auto simp: image_iff)
  have self: "hasTimer ?s key = isActive existing"
  proof (cases "truthy (p_updateInterval newConfig)")
    case True
    then show ?thesis unfolding st hasTimer_def by (auto simp: image_iff)
  next
    case False
    then show ?thesis using act unfolding st hasTimer_def by simp
  qed
  have cfg: "map_of (sensorConfigs ?s) k =
               (if k = key then Some (spread existing newConfig) else map_of (sensorConfigs s) k)" for k
    unfolding st by (simp add: update_conv')
  have "timerIffActive ?s"
    unfolding timerIffActive_alt [OF d'] cfg
    using inv other self same unfolding timerIffActive_alt [OF d]
    by (auto split: if_splits)
  with reg' show ?thesis by simp
qed

lemma flagStable_inv: "flagStable s \<Longrightarrow> timersRegistered s \<and> timerIffActive s"
proof (induction rule: flagStable.induct)
  case (init now)
  show ?case by (rule started_inv)
next
  case (reinit s now)
  then show ?case by (simp add: initialize_def timersRegistered_def)
next
  case (maintenance s key date)
  then show ?case by (simp add: maintenance_inv)
next
  case (config s key newConfig)
  then show ?case by (simp add: config_inv)
qed

lemma fold_clearInterval:
  "fold (\<lambda>entry. clearInterval (snd entry)) es s =
     s\<lparr> activeTimers := filter (\<lambda>t. fst t \<notin> snd ` set es) (activeTimers s) \<rparr>"
proof (induction es arbitrary: s)
  case Nil
  show ?case by simp
next
  case (Cons e es)
  let ?f = "\<lambda>entry. clearInterval (snd entry)"
  have "fold ?f (e # es) s = fold ?f es (clearInterval (snd e) s)" by simp
  also have "\<dots> = (clearInterval (snd e) s)
      \<lparr> activeTimers := filter (\<lambda>t. fst t \<notin> snd ` set es) (activeTimers (clearInterval (snd e) s)) \<rparr>"
    by (rule Cons.IH)
  also have "\<dots> = s\<lparr> activeTimers := filter (\<lambda>t. fst t \<notin> snd ` set (e # es)) (activeTimers s) \<rparr>"
    by (simp add: clearInterval_def conj_commute)
  finally show ?case .
qed

lemma cleanup_state:
  assumes "timersRegistered s"
  shows "cleanup s = s\<lparr> activeTimers := [], streamingIntervals := [] \<rparr>"
proof -
  have "fst t \<in> snd ` set (streamingIntervals s)" if "t \<in> set (activeTimers s)" for t
  proof -
    from assms that have "map_of (streamingIntervals s) (fst (snd t)) = Some (fst t)"
      unfolding timersRegistered_def list_all_iff by blast
    then have "(fst (snd t), fst t) \<in> set (streamingIntervals s)" by (rule map_of_SomeD)
    then show ?thesis by force
  qed
  then have "filter (\<lambda>t. fst t \<notin> snd ` set (streamingIntervals s)) (activeTimers s) = []"
    by (simp add: filter_empty_conv)
  then show ?thesis by (simp add: cleanup_def fold_clearInterval)
qed

text \<open>
  Claim C3, amended: after initialization, and after every maintenance update and every
  configuration update that leaves the device's active flag as it was, a device has a
  running timer if and only if its active flag is true. Shutdown cancels every timer, so
  that no further tick fires for any device, and leaves the registry with its active
  flags as it was.
\<close>

theorem timer_iff_active_while_flags_stable:
  "flagStable s \<Longrightarrow>
   timerIffActive s
   \<and> activeTimers (cleanup s) = []
   \<and> sensorConfigs (cleanup s) = sensorConfigs s"
  using flagStable_inv [of s] by (simp add: cleanup_state)

theorem timer_iff_active_while_flags_stable_witness:
  "flagStable (updateSensorConfig ''wave_001'' (noChange\<lparr> p_updateInterval := Some 10 \<rparr>) started)
   \<and> timerIffActive (updateSensorConfig ''wave_001'' (noChange\<lparr> p_updateInterval := Some 10 \<rparr>) started)
   \<and> activeTimers (updateSensorConfig ''wave_001'' (noChange\<lparr> p_updateInterval := Some 10 \<rparr>) started)
      = [(1, ''weather_001'', 15000), (2, ''seismic_001'', 5000), (3, ''water_001'', 300000),
         (4, ''wave_001'', 10000)]"
proof -
  have fs: "flagStable started" unfolding started_def by (rule flagStable.init)
  have fu: "flagUnchanged started ''wave_001'' (noChange\<lparr> p_updateInterval := Some 10 \<rparr>)"
    by (simp add: started_def started_state flagUnchanged_def defaultSensors_def spread_def noChange_def)
  have st: "flagStable (updateSensorConfig ''wave_001'' (noChange\<lparr> p_updateInterval := Some 10 \<rparr>) started)"
    by (rule flagStable.config [OF fs fu])
  show ?thesis
    using st timer_iff_active_while_flags_stable [OF st]
    by (simp add: started_def started_state updateSensorConfig_def defaultSensors_def
        setInterval_def clearInterval_def Let_def noChange_def)
qed

text \<open>
  Claim C3 as stated fails: a configuration update that sets the active flag of the
  wave buoy to false stores the flag and leaves the buoy's timer running, and after
  shutdown the active devices have no timer.
\<close>

theorem deactivation_keeps_timer:
  "isActive (the (map_of (sensorConfigs
       (updateSensorConfig ''wave_001'' (noChange\<lparr> p_isActive := Some False \<rparr>) started)) ''wave_001'')) = False
   \<and> hasTimer (updateSensorConfig ''wave_001'' (noChange\<lparr> p_isActive := Some False \<rparr>) started) ''wave_001''
   \<and> \<not> timerIffActive (updateSensorConfig ''wave_001'' (noChange\<lparr> p_isActive := Some False \<rparr>) started)
   \<and> \<not> timerIffActive (cleanup started)"
  by (simp add: started_def started_state updateSensorConfig_def defaultSensors_def cleanup_def
      clearInterval_def timerIffActive_def hasTimer_def spread_def noChange_def Let_def)

subsection \<open>Reconfiguration\<close>

text \<open>
  Claim C6, amended: a reconfiguration request for a device id that is not registered
  is ignored, the service state staying as it was, and no error is signalled; a request
  for a registered device is merged into the stored configuration whatever its sampling
  interval is, also when the interval is zero or negative.
\<close>

theorem reconfigure_never_rejects:
  "(map_of (sensorConfigs s) key = None \<longrightarrow> updateSensorConfig key newConfig s = s)
   \<and> (map_of (sensorConfigs s) key = Some existing \<longrightarrow>
        map_of (sensorConfigs (updateSensorConfig key newConfig s)) key
          = Some (spread existing newConfig))
   \<and> (p_updateInterval newConfig = Some iv \<longrightarrow> updateInterval (spread existing newConfig) = iv)"
  by (simp add: updateSensorConfig_def Let_def setInterval_def clearInterval_def spread_def
      update_conv' split: option.splits)

theorem reconfigure_never_rejects_witness:
  "map_of (sensorConfigs started) ''ghost_999'' = None
   \<and> updateSensorConfig ''ghost_999'' (noChange\<lparr> p_updateInterval := Some 10 \<rparr>) started = started
   \<and> map_of (sensorConfigs started) ''wave_001'' = Some (hd (defaultSensors 0))
   \<and> map_of (sensorConfigs
          (updateSensorConfig ''wave_001'' (noChange\<lparr> p_updateInterval := Some (- 5) \<rparr>) started)) ''wave_001''
       = Some ((hd (defaultSensors 0))\<lparr> updateInterval := - 5 \<rparr>)"
proof -
  have a: "map_of (sensorConfigs started) ''ghost_999'' = None"
    and b: "map_of (sensorConfigs started) ''wave_001'' = Some (hd (defaultSensors 0))"
    by (simp_all add: started_def started_state defaultSensors_def)
  show ?thesis
    using a b
      reconfigure_never_rejects [of started "''ghost_999''" "noChange\<lparr> p_updateInterval := Some 10 \<rparr>"
        "hd (defaultSensors 0)" 10]
      reconfigure_never_rejects [of started "''wave_001''" "noChange\<lparr> p_updateInterval := Some (- 5) \<rparr>"
        "hd (defaultSensors 0)" "- 5"]
    by (simp add: spread_def noChange_def defaultSensors_def)
qed

text \<open>
  Claim C6 as stated fails: the intervals 0 and -5 are stored for the wave buoy, the
  interval -5 restarts its timer with a delay of -5000 ms, and the request for the
  unknown id returns the state unchanged.
\<close>

theorem nonpositive_interval_applied:
  "updateInterval (the (map_of (sensorConfigs
       (updateSensorConfig ''wave_001'' (noChange\<lparr> p_updateInterval := Some 0 \<rparr>) started)) ''wave_001'')) = 0
   \<and> updateInterval (the (map_of (sensorConfigs
       (updateSensorConfig ''wave_001'' (noChange\<lparr> p_updateInterval := Some (- 5) \<rparr>) started)) ''wave_001'')) = - 5
   \<and> activeTimers (updateSensorConfig ''wave_001'' (noChange\<lparr> p_updateInterval := Some (- 5) \<rparr>) started)
       = [(1, ''weather_001'', 15000), (2, ''seismic_001'', 5000), (3, ''water_001'', 300000),
          (4, ''wave_001'', - 5000)]
   \<and> updateSensorConfig ''ghost_999'' (noChange\<lparr> p_updateInterval := Some 10 \<rparr>) started = started"
  by (simp add: started_def started_state updateSensorConfig_def defaultSensors_def
      setInterval_def clearInterval_def spread_def noChange_def Let_def)


section \<open>Properties of the geo analytics service\<close>

subsection \<open>Distance\<close>













subsection \<open>Loops whose body does not throw\<close>



subsection \<open>A clustering run on a single event\<close>








subsection \<open>Cluster risk\<close>






subsection \<open>Proximity scoring\<close>












subsection \<open>Evacuation resolution\<close>














subsection \<open>Clustering\<close>

















lemma arg_min_list_cong:
  "xs \<noteq> [] \<Longrightarrow> (\<And>x. x \<in> set xs \<Longrightarrow> f x = g x) \<Longrightarrow> arg_min_list f xs = arg_min_list g xs"
proof (induction f xs rule: arg_min_list.induct)
  case (1 f x)
  show ?case by simp
next
  case (2 f x y zs)
  then have "arg_min_list f (y # zs) = arg_min_list g (y # zs)" by simp
  moreover have "arg_min_list g (y # zs) \<in> set (y # zs)" by (rule arg_min_list_in) simp
  ultimately show ?case using 2(3) by (simp add: Let_def)
next
  case (3 f)
  then show ?case by simp
qed




































end
